theory Spec2Isabelle
  imports Complex_Main "HOL-Library.AList"
begin

section \<open>Python values, exceptions and ordered dictionaries\<close>

text \<open>
  The analyzer keeps every status field in one dictionary whose values are strings,
  integers, floats, booleans or \<open>None\<close>. Python integers are unbounded (\<open>int\<close>).
  A Python float is modelled by the rational number it denotes: arithmetic on floats is
  exact in this model (no rounding, no overflow to infinity, no NaN).
\<close>

datatype pyval = PNone | PBool bool | PInt int | PFloat rat | PStr string

datatype error =
    AssertionError | IndexError | KeyError | TypeError | ValueError
  | ZeroDivisionError | AttributeError | FormatException

text \<open>
  A dictionary (\<open>dict\<close>, \<open>OrderedDict\<close>) is an association list in insertion order.
  \<open>d[k] = v\<close> replaces the value of a key that is present and appends a new key.
\<close>

type_synonym 'v odict = "(string \<times> 'v) list"

definition od_get :: "'v odict \<Rightarrow> string \<Rightarrow> 'v option" where
  "od_get d k = map_of d k"

definition od_set :: "'v odict \<Rightarrow> string \<Rightarrow> 'v \<Rightarrow> 'v odict" where
  "od_set d k v = AList.update k v d"

text \<open>\<open>d.update(other)\<close>: assigns every item of \<open>other\<close>, in its order.\<close>

definition od_update :: "'v odict \<Rightarrow> 'v odict \<Rightarrow> 'v odict" where
  "od_update d other = fold (\<lambda>(k, v) acc. od_set acc k v) other d"

text \<open>\<open>d[k]\<close> raises \<open>KeyError\<close> for a missing key.\<close>

definition od_item :: "'v odict \<Rightarrow> string \<Rightarrow> error + 'v" where
  "od_item d k = (case od_get d k of None \<Rightarrow> Inl KeyError | Some v \<Rightarrow> Inr v)"

abbreviation dquote :: char where
  "dquote \<equiv> CHR 0x22"

section \<open>The builtins \<open>int()\<close> and \<open>float()\<close> on strings\<close>

text \<open>
  The grammar CPython accepts for ASCII text: surrounding whitespace is stripped, one
  optional sign, then decimal digits in which single underscores may stand between two
  digits. \<open>float()\<close> takes an integer part, an optional point and fraction (one of the
  two parts may be empty) and an optional exponent. The spellings \<open>inf\<close> and \<open>nan\<close>
  contain no point, and \<open>handleLine\<close> calls \<open>float()\<close> only on text with a
  point, so they are not part of \<open>py_float\<close>.
\<close>

definition py_isspace :: "char \<Rightarrow> bool" where
  "py_isspace c = (c \<in> {CHR 0x09, CHR 0x0A, CHR 0x0B, CHR 0x0C, CHR 0x0D, CHR '' ''})"

definition py_strip :: "string \<Rightarrow> string" where
  "py_strip s = rev (dropWhile py_isspace (rev (dropWhile py_isspace s)))"

definition is_digit :: "char \<Rightarrow> bool" where
  "is_digit c = (48 \<le> (of_char c :: nat) \<and> (of_char c :: nat) \<le> 57)"

definition digit_val :: "char \<Rightarrow> nat" where
  "digit_val c = of_char c - 48"

fun dec_digits :: "string \<Rightarrow> string option" where
  "dec_digits [] = None"
| "dec_digits [c] = (if is_digit c then Some [c] else None)"
| "dec_digits (c # u # cs) =
     (if \<not> is_digit c then None
      else if u = CHR ''_'' then map_option ((#) c) (dec_digits cs)
      else map_option ((#) c) (dec_digits (u # cs)))"

definition nat_of_digits :: "string \<Rightarrow> nat" where
  "nat_of_digits ds = foldl (\<lambda>a c. 10 * a + digit_val c) 0 ds"

fun split_sign :: "string \<Rightarrow> bool \<times> string" where
  "split_sign [] = (False, [])"
| "split_sign (c # cs) =
     (if c = CHR ''-'' then (True, cs)
      else if c = CHR ''+'' then (False, cs)
      else (False, c # cs))"

definition py_int :: "string \<Rightarrow> int option" where
  "py_int s =
     (case split_sign (py_strip s) of (neg, r) \<Rightarrow>
        (case dec_digits r of
           None \<Rightarrow> None
         | Some ds \<Rightarrow> Some (if neg then - int (nat_of_digits ds) else int (nat_of_digits ds))))"

text \<open>A digit group of a float literal may be empty.\<close>

definition opt_digits :: "string \<Rightarrow> string option" where
  "opt_digits s = (if s = [] then Some [] else dec_digits s)"

definition is_exp_char :: "char \<Rightarrow> bool" where
  "is_exp_char c = (c = CHR ''e'' \<or> c = CHR ''E'')"

definition py_exponent :: "string \<Rightarrow> int option" where
  "py_exponent s =
     (case s of
        [] \<Rightarrow> Some 0
      | _ # r \<Rightarrow>
          (case split_sign r of (neg, ds) \<Rightarrow>
             (case dec_digits ds of
                None \<Rightarrow> None
              | Some e \<Rightarrow> Some (if neg then - int (nat_of_digits e) else int (nat_of_digits e)))))"

definition scale10 :: "rat \<Rightarrow> int \<Rightarrow> rat" where
  "scale10 x e = (if 0 \<le> e then x * 10 ^ nat e else x / 10 ^ nat (- e))"

definition py_float :: "string \<Rightarrow> rat option" where
  "py_float s =
     (case split_sign (py_strip s) of (neg, r) \<Rightarrow>
        (let mant = takeWhile (\<lambda>c. \<not> is_exp_char c) r;
             ex = dropWhile (\<lambda>c. \<not> is_exp_char c) r;
             ip = takeWhile (\<lambda>c. c \<noteq> CHR ''.'') mant;
             fp = drop 1 (dropWhile (\<lambda>c. c \<noteq> CHR ''.'') mant)
         in if ip = [] \<and> fp = [] then None
            else (case (opt_digits ip, opt_digits fp, py_exponent ex) of
                    (Some i, Some f, Some e) \<Rightarrow>
                      (let m = scale10 (of_nat (nat_of_digits (i @ f))) (e - int (length f))
                       in Some (if neg then - m else m))
                  | _ \<Rightarrow> None)))"

section \<open>StatusLinesDictExtractor: the key=value scanner\<close>

text \<open>
  The \<open>try\<close> block of \<open>handleLine\<close>: text with a point goes to \<open>float()\<close>, any other
  text to \<open>int()\<close>; \<open>except Exception: pass\<close> keeps the text when the conversion
  raises.
\<close>

definition coerce :: "string \<Rightarrow> pyval" where
  "coerce val =
     (if CHR ''.'' \<in> set val
      then (case py_float val of Some f \<Rightarrow> PFloat f | None \<Rightarrow> PStr val)
      else (case py_int val of Some n \<Rightarrow> PInt n | None \<Rightarrow> PStr val))"

datatype kind = EVENT_CORRELATOR_STATUS_DICT | EVENT_JMS_STATUS_DICT

text \<open>
  The loops of \<open>handleLine\<close> walk an index \<open>i\<close> over the message \<open>m\<close>; the model
  carries the rest of the message from \<open>i\<close> on, so \<open>i < len(m)\<close> is "the rest is not
  empty" and \<open>m[i]\<close> is its head.
\<close>

fun scan_key :: "string \<Rightarrow> string \<Rightarrow> string \<times> string" where
  "scan_key key [] = (key, [])"
| "scan_key key (c # cs) =
     (if c \<noteq> CHR ''='' then scan_key (key @ [c]) cs else (key, c # cs))"

fun scan_val :: "char \<Rightarrow> string \<Rightarrow> string \<Rightarrow> string \<times> string" where
  "scan_val endchar val [] = (val, [])"
| "scan_val endchar val (c # cs) =
     (if c \<noteq> endchar
      then scan_val endchar (if endchar \<noteq> dquote \<or> c \<noteq> CHR '','' then val @ [c] else val) cs
      else (val, c # cs))"

definition skip_separators :: "string \<Rightarrow> string" where
  "skip_separators r = dropWhile (\<lambda>c. c \<in> {CHR '' '', dquote}) r"

text \<open>
  One pass through the body of \<open>while i < len(m)\<close>: the key, the two assertions, the
  opening quote, the value, its coercion and the assignment \<open>d[key] = val\<close>. The
  result is the rest of the message after the separators and the dictionary.
\<close>

definition scan_field :: "kind \<Rightarrow> string \<Rightarrow> pyval odict \<Rightarrow> error + (string \<times> pyval odict)" where
  "scan_field knd r d =
     (case scan_key [] r of (key, r1) \<Rightarrow>
        (case r1 of
           [] \<Rightarrow> Inl AssertionError
         | _ # r2 \<Rightarrow>
             (case r2 of
                [] \<Rightarrow> Inl IndexError
              | q # r3 \<Rightarrow>
                  (let endchar = (if q = dquote then dquote else CHR '' '');
                       r4 = (if q = dquote then r3 else r2)
                   in case scan_val endchar [] r4 of (val, r5) \<Rightarrow>
                        (let key' = (if knd = EVENT_JMS_STATUS_DICT then ''jms.'' @ key else key);
                             v = (if endchar \<noteq> dquote then coerce val else PStr val)
                         in Inr (skip_separators r5, od_set d key' v))))))"

lemma scan_key_length: "length (snd (scan_key key r)) \<le> length r"
  by (induction r arbitrary: key) (auto intro: le_SucI)

lemma scan_val_length: "length (snd (scan_val e val r)) \<le> length r"
  by (induction r arbitrary: val) (auto intro: le_SucI)

lemma scan_field_shorter:
  assumes "scan_field knd r d = Inr (r', d')"
  shows "length r' < length r"
proof -
  obtain key r1 where k: "scan_key [] r = (key, r1)" by (cases "scan_key [] r")
  from assms k obtain c r2 where r1: "r1 = c # r2"
    by (cases r1) (auto simp: scan_field_def)
  from assms k r1 obtain q r3 where r2: "r2 = q # r3"
    by (cases r2) (auto simp: scan_field_def)
  define r4 where "r4 = (if q = dquote then r3 else r2)"
  obtain val r5 where v: "scan_val (if q = dquote then dquote else CHR '' '') [] r4 = (val, r5)"
    by (cases "scan_val (if q = dquote then dquote else CHR '' '') [] r4")
  from assms k r1 r2 v have r': "r' = skip_separators r5"
    by (auto simp: scan_field_def Let_def r4_def)
  have "length r1 \<le> length r" using scan_key_length [of "[]" r] k by simp
  moreover have "length r4 \<le> length r2" by (simp add: r4_def r2)
  moreover have "length r5 \<le> length r4"
    using scan_val_length [of "if q = dquote then dquote else CHR '' ''" "[]" r4] v by simp
  moreover have "length r' \<le> length r5"
    by (simp add: r' skip_separators_def length_dropWhile_le)
  ultimately show ?thesis using r1 by simp
qed

function scan_fields :: "kind \<Rightarrow> string \<Rightarrow> pyval odict \<Rightarrow> error + pyval odict" where
  "scan_fields knd r d =
     (if r = [] then Inr d
      else (case scan_field knd r d of
              Inl e \<Rightarrow> Inl e
            | Inr (r', d') \<Rightarrow> scan_fields knd r' d'))"
  by pat_completeness auto
termination
  by (relation "measure (\<lambda>(knd, r, d). length r)") (auto dest: scan_field_shorter)

declare scan_fields.simps [simp del]


section \<open>StatusLinesDictExtractor: from a log line to a status dictionary\<close>

text \<open>
  A \<open>LogLine\<close> as \<open>handleLine\<close> reads it: the line number, the message, and what
  the library calls behind \<open>getDetails\<close> and \<open>getDateTime\<close> give for the line: the
  date-time text matched by the line pattern (empty when the pattern does not match) and
  the epoch time parsed from it (\<open>None\<close> when \<open>strptime\<close> raises \<open>ValueError\<close>).
\<close>

record LogLine =
  lineno :: int
  message :: string
  datetimestring :: string
  timestamp :: "rat option"

definition startswith :: "string \<Rightarrow> string \<Rightarrow> bool" where
  "startswith m p = (take (length p) m = p)"

definition endswith :: "string \<Rightarrow> string \<Rightarrow> bool" where
  "endswith m p = (length p \<le> length m \<and> drop (length m - length p) m = p)"

text \<open>\<open>m.index(sub)\<close>: the first position where \<open>sub\<close> starts; \<open>ValueError\<close> if none.\<close>

fun str_index :: "string \<Rightarrow> string \<Rightarrow> error + nat" where
  "str_index [] sub = (if sub = [] then Inr 0 else Inl ValueError)"
| "str_index (c # cs) sub =
     (if startswith (c # cs) sub then Inr 0
      else (case str_index cs sub of Inl e \<Rightarrow> Inl e | Inr n \<Rightarrow> Inr (Suc n)))"

text \<open>\<open>m[:n]\<close> for an integer \<open>n\<close>, which counts from the end when negative.\<close>

definition slice_to :: "string \<Rightarrow> int \<Rightarrow> string" where
  "slice_to m n = (if 0 \<le> n then take (nat n) m else take (length m - nat (- n)) m)"

text \<open>
  The first part of \<open>handleLine\<close>, after the kind of the line is known: the three
  timing fields, the suffix of a JMS line, and the scan from two characters after the
  first colon. (\<open>if not d: return\<close> never returns: \<open>d\<close> holds the timing fields.)
\<close>

definition extract_status :: "kind \<Rightarrow> LogLine \<Rightarrow> error + pyval odict" where
  "extract_status knd line =
     (let d0 = od_set [] ''datetime'' (PStr (datetimestring line)) in
      case timestamp line of
        None \<Rightarrow> Inl ValueError
      | Some secs \<Rightarrow>
          (let d1 = od_set d0 ''seconds'' (PFloat secs);
               d2 = od_set d1 ''line num'' (PInt (lineno line));
               m = message line;
               stripped =
                 (if knd = EVENT_JMS_STATUS_DICT then
                    (if endswith m ''<waiting for onApplicationInitialized>''
                     then (case str_index m ''<waiting for onApplicationInitialized'' of
                             Inl e \<Rightarrow> Inl e
                           | Inr n \<Rightarrow> Inr (slice_to m (int n - 1),
                                           od_set d2 ''waitingForOnAppInit'' (PBool True)))
                     else Inr (m, od_set d2 ''waitingForOnAppInit'' (PBool False)))
                  else Inr (m, d2))
           in case stripped of
                Inl e \<Rightarrow> Inl e
              | Inr (m', d3) \<Rightarrow>
                  (case str_index m' '':'' of
                     Inl e \<Rightarrow> Inl e
                   | Inr n \<Rightarrow> scan_fields knd (drop (n + 2) m') d3)))"

section \<open>StatusLinesDictExtractor: pairing correlator and JMS status lines\<close>

text \<open>
  The two private fields of the extractor. \<open>jmsenabled\<close> is \<open>None\<close> until two status
  lines have been seen, then \<open>Some False\<close> or \<open>Some True\<close>; \<open>previous\<close> is the
  status dictionary waiting for its partner.
\<close>

record extractor =
  jmsenabled :: "bool option"
  previous :: "pyval odict option"

text \<open>\<open>register\<close> sets both fields to \<open>None\<close>.\<close>

definition register_extractor :: extractor where
  "register_extractor = \<lparr>jmsenabled = None, previous = None\<rparr>"

text \<open>
  The second part of \<open>handleLine\<close>, from \<open>if self.__jmsenabled is None\<close> on. The result
  is the new state and the dictionaries published as \<open>EVENT_COMBINED_STATUS_DICT\<close>, in
  order. \<open>combined.update(None)\<close> raises \<open>TypeError\<close>; a failed \<open>assert\<close> raises
  \<open>AssertionError\<close>.
\<close>

definition correlate :: "kind \<Rightarrow> pyval odict \<Rightarrow> extractor \<Rightarrow> error + (extractor \<times> pyval odict list)" where
  "correlate knd d st =
     (case (jmsenabled st, previous st) of
        (None, None) \<Rightarrow> Inr (st\<lparr>previous := Some d\<rparr>, [])
      | _ \<Rightarrow>
          (let (st1, out1) =
                 (case (jmsenabled st, previous st) of
                    (None, Some p) \<Rightarrow>
                      (if knd = EVENT_CORRELATOR_STATUS_DICT
                       then (st\<lparr>jmsenabled := Some False, previous := None\<rparr>, [p])
                       else (st\<lparr>jmsenabled := Some True\<rparr>, []))
                  | _ \<Rightarrow> (st, []))
           in if jmsenabled st1 = Some False then Inr (st1, out1 @ [d])
              else if knd = EVENT_JMS_STATUS_DICT then
                (case previous st1 of
                   None \<Rightarrow> Inl TypeError
                 | Some p \<Rightarrow> Inr (st1\<lparr>previous := None\<rparr>, out1 @ [od_update d p]))
              else
                (case previous st1 of
                   None \<Rightarrow> Inr (st1\<lparr>previous := Some d\<rparr>, out1)
                 | Some p \<Rightarrow> Inl AssertionError)))"

text \<open>
  \<open>handleLine\<close>: only a message that starts with the correlator marker is a status
  line (the JMS marker is commented out in the source), every other line is ignored.
\<close>

definition handleLine :: "LogLine \<Rightarrow> extractor \<Rightarrow> error + (extractor \<times> pyval odict list)" where
  "handleLine line st =
     (if startswith (message line) ''Correlator Status: ''
      then (case extract_status EVENT_CORRELATOR_STATUS_DICT line of
              Inl e \<Rightarrow> Inl e
            | Inr d \<Rightarrow> correlate EVENT_CORRELATOR_STATUS_DICT d st)
      else Inr (st, []))"

section \<open>LogAnalysisManager: events and their delivery\<close>

datatype event =
    EVENT_FILE_STARTED
  | EVENT_PERCENT_COMPLETE nat
  | EVENT_LINE LogLine
  | EVENT_FILE_FINISHED
  | EVENT_ALL_FINISHED

datatype log_record = LogException error | LogWarnNotEnough nat

text \<open>
  \<open>publish\<close> calls a listener; when the listener raises, the exception is logged with
  \<open>log.exception\<close> and raised again. A listener is a function from its argument and its
  state to an error or to the new state and what it published itself.
\<close>

definition publish ::
  "('a \<Rightarrow> 's \<Rightarrow> error + ('s \<times> 'o list)) \<Rightarrow> 'a \<Rightarrow> 's \<Rightarrow> log_record list \<times> (error + ('s \<times> 'o list))" where
  "publish listener x s =
     (case listener x s of
        Inl e \<Rightarrow> ([LogException e], Inl e)
      | Inr r \<Rightarrow> ([], Inr r))"

text \<open>
  Events are published one after the other; the first exception ends the run, since
  nothing between \<open>publish\<close> and the command line catches it.
\<close>

fun publish_all ::
  "('a \<Rightarrow> 's \<Rightarrow> error + ('s \<times> 'o list)) \<Rightarrow> 'a list \<Rightarrow> 's \<Rightarrow> log_record list \<times> (error + ('s \<times> 'o list))" where
  "publish_all listener [] s = ([], Inr (s, []))"
| "publish_all listener (x # xs) s =
     (case publish listener x s of
        (logs, Inl e) \<Rightarrow> (logs, Inl e)
      | (logs, Inr (s1, out1)) \<Rightarrow>
          (case publish_all listener xs s1 of
             (logs2, Inl e) \<Rightarrow> (logs @ logs2, Inl e)
           | (logs2, Inr (s2, out2)) \<Rightarrow> (logs @ logs2, Inr (s2, out1 @ out2))))"

text \<open>
  A line of an input file as \<open>processFile\<close> reads it: the number of characters of the
  line, whether it is empty after \<open>rstrip\<close>, and the parts a \<open>LogLine\<close> is made of.
\<close>

record file_line =
  line_chars :: nat
  line_blank :: bool
  line_message :: string
  line_datetimestring :: string
  line_timestamp :: "rat option"

text \<open>\<open>for threshold in [25, 50, 75]\<close>, inside the loop over the lines.\<close>

fun publish_thresholds :: "rat \<Rightarrow> nat \<Rightarrow> nat list \<Rightarrow> event list \<times> nat" where
  "publish_thresholds percent lastpercent [] = ([], lastpercent)"
| "publish_thresholds percent lastpercent (t # ts) =
     (if percent \<ge> of_nat t \<and> lastpercent < t
      then (case publish_thresholds percent t ts of
              (evs, lp) \<Rightarrow> (EVENT_PERCENT_COMPLETE t # evs, lp))
      else publish_thresholds percent lastpercent ts)"

text \<open>
  The loop \<open>for line in f\<close> of \<open>processFile\<close>, with the file size, the line number, the
  character count and the last published threshold; the result is the events it
  publishes and the last threshold.
\<close>

fun read_lines :: "nat \<Rightarrow> file_line list \<Rightarrow> nat \<Rightarrow> nat \<Rightarrow> nat \<Rightarrow> event list \<times> nat" where
  "read_lines filebytes [] n charcount lastpercent = ([], lastpercent)"
| "read_lines filebytes (l # ls) n charcount lastpercent =
     (let n' = n + 1;
          charcount' = charcount + line_chars l;
          progress =
            (if filebytes < 10 * 1000 \<or> n' mod 10 = 0
             then publish_thresholds
                    (100 * of_nat charcount' / (if filebytes = 0 then - 1 else of_nat filebytes))
                    lastpercent [25, 50, 75]
             else ([], lastpercent));
          line_event =
            (if line_blank l then []
             else [EVENT_LINE \<lparr>lineno = int n', message = line_message l,
                               datetimestring = line_datetimestring l,
                               timestamp = line_timestamp l\<rparr>])
      in case read_lines filebytes ls n' charcount' (snd progress) of
           (evs, lp) \<Rightarrow> (fst progress @ line_event @ evs, lp))"

definition processFile :: "nat \<times> file_line list \<Rightarrow> event list" where
  "processFile file =
     (case read_lines (fst file) (snd file) 0 0 0 of
        (evs, lastpercent) \<Rightarrow>
          [EVENT_FILE_STARTED, EVENT_PERCENT_COMPLETE 0] @ evs
          @ map EVENT_PERCENT_COMPLETE (filter (\<lambda>t. lastpercent < t) [25, 50, 75, 100])
          @ [EVENT_FILE_FINISHED])"

definition processFiles :: "(nat \<times> file_line list) list \<Rightarrow> event list" where
  "processFiles files = concat (map processFile files) @ [EVENT_ALL_FINISHED]"

text \<open>
  What the extractor is subscribed to: \<open>register\<close> subscribes \<open>handleLine\<close> to
  \<open>EVENT_LINE\<close>, the base class subscribes \<open>finished\<close> (which does nothing) to
  \<open>EVENT_ALL_FINISHED\<close>. No other event reaches the extractor.
\<close>

definition extractor_listener :: "event \<Rightarrow> extractor \<Rightarrow> error + (extractor \<times> pyval odict list)" where
  "extractor_listener ev st =
     (case ev of
        EVENT_LINE line \<Rightarrow> handleLine line st
      | _ \<Rightarrow> Inr (st, []))"


section \<open>Arithmetic and comparison of Python values\<close>

text \<open>\<open>isinstance(v, str)\<close>, \<open>isinstance(v, float)\<close> and \<open>isinstance(v, int)\<close>; a
  \<open>bool\<close> is an \<open>int\<close> in Python.\<close>

fun is_str :: "pyval \<Rightarrow> bool" where
  "is_str (PStr s) = True"
| "is_str v = False"

fun is_float :: "pyval \<Rightarrow> bool" where
  "is_float (PFloat x) = True"
| "is_float v = False"

fun int_of :: "pyval \<Rightarrow> int option" where
  "int_of (PInt i) = Some i"
| "int_of (PBool b) = Some (if b then 1 else 0)"
| "int_of v = None"

definition is_int :: "pyval \<Rightarrow> bool" where
  "is_int v = (int_of v \<noteq> None)"

text \<open>The number a value stands for in arithmetic; strings and \<open>None\<close> have none.\<close>

fun num_of :: "pyval \<Rightarrow> rat option" where
  "num_of (PInt i) = Some (of_int i)"
| "num_of (PBool b) = Some (if b then 1 else 0)"
| "num_of (PFloat x) = Some x"
| "num_of v = None"

text \<open>
  \<open>a - b\<close>, \<open>a + b\<close>, \<open>a * b\<close> on numbers: an integer when both are integers, a
  float otherwise. The analyzer applies them to numbers only; with a string or \<open>None\<close>
  the model raises \<open>TypeError\<close>, as Python does wherever one operand is a number.
\<close>

definition arith :: "(int \<Rightarrow> int \<Rightarrow> int) \<Rightarrow> (rat \<Rightarrow> rat \<Rightarrow> rat) \<Rightarrow> pyval \<Rightarrow> pyval \<Rightarrow> error + pyval" where
  "arith fi fr a b =
     (case (int_of a, int_of b) of
        (Some x, Some y) \<Rightarrow> Inr (PInt (fi x y))
      | _ \<Rightarrow>
          (case (num_of a, num_of b) of
             (Some x, Some y) \<Rightarrow> Inr (PFloat (fr x y))
           | _ \<Rightarrow> Inl TypeError))"

definition py_sub :: "pyval \<Rightarrow> pyval \<Rightarrow> error + pyval" where
  "py_sub a b = arith (-) (-) a b"

definition py_add :: "pyval \<Rightarrow> pyval \<Rightarrow> error + pyval" where
  "py_add a b = arith (+) (+) a b"

definition py_mul :: "pyval \<Rightarrow> pyval \<Rightarrow> error + pyval" where
  "py_mul a b = arith (*) (*) a b"

text \<open>\<open>a / b\<close>: always a float; a zero divisor raises.\<close>

definition py_truediv :: "pyval \<Rightarrow> pyval \<Rightarrow> error + pyval" where
  "py_truediv a b =
     (case (num_of a, num_of b) of
        (Some x, Some y) \<Rightarrow> (if y = 0 then Inl ZeroDivisionError else Inr (PFloat (x / y)))
      | _ \<Rightarrow> Inl TypeError)"

text \<open>\<open>a == b\<close> never raises: numbers compare by value, anything else by identity of
  content, a number and a non-number are different.\<close>

definition py_eq :: "pyval \<Rightarrow> pyval \<Rightarrow> bool" where
  "py_eq a b =
     (case (num_of a, num_of b) of
        (Some x, Some y) \<Rightarrow> x = y
      | (None, None) \<Rightarrow> a = b
      | _ \<Rightarrow> False)"

text \<open>
  \<open>a > b\<close> and \<open>a < b\<close> where the left operand is not a string (the summarizer skips
  strings before it compares): two numbers compare by value, a number against a string
  or \<open>None\<close>, and \<open>None\<close> against anything, raise \<open>TypeError\<close>.
\<close>

definition py_gt :: "pyval \<Rightarrow> pyval \<Rightarrow> error + bool" where
  "py_gt a b =
     (case (num_of a, num_of b) of
        (Some x, Some y) \<Rightarrow> Inr (x > y)
      | _ \<Rightarrow> Inl TypeError)"

definition py_lt :: "pyval \<Rightarrow> pyval \<Rightarrow> error + bool" where
  "py_lt a b =
     (case (num_of a, num_of b) of
        (Some x, Some y) \<Rightarrow> Inr (x < y)
      | _ \<Rightarrow> Inl TypeError)"

text \<open>\<open>int(x)\<close> on a number truncates towards zero.\<close>

definition py_trunc :: "rat \<Rightarrow> int" where
  "py_trunc x = (if 0 \<le> x then \<lfloor>x\<rfloor> else \<lceil>x\<rceil>)"

definition py_int_of :: "pyval \<Rightarrow> error + pyval" where
  "py_int_of v =
     (case v of
        PFloat x \<Rightarrow> Inr (PInt (py_trunc x))
      | PStr s \<Rightarrow> (case py_int s of None \<Rightarrow> Inl ValueError | Some i \<Rightarrow> Inr (PInt i))
      | PNone \<Rightarrow> Inl TypeError
      | _ \<Rightarrow> (case int_of v of Some i \<Rightarrow> Inr (PInt i) | None \<Rightarrow> Inl TypeError))"

text \<open>Truth value of a value in a condition.\<close>

fun truthy :: "pyval \<Rightarrow> bool" where
  "truthy PNone = False"
| "truthy (PBool b) = b"
| "truthy (PInt i) = (i \<noteq> 0)"
| "truthy (PFloat x) = (x \<noteq> 0)"
| "truthy (PStr s) = (s \<noteq> [])"

text \<open>Sequencing of steps that may raise.\<close>

definition and_then :: "error + 'a \<Rightarrow> ('a \<Rightarrow> error + 'b) \<Rightarrow> error + 'b" where
  "and_then r f = (case r of Inl e \<Rightarrow> Inl e | Inr v \<Rightarrow> f v)"

section \<open>CSVStatusWriter.formatItem\<close>

definition digit_char :: "nat \<Rightarrow> char" where
  "digit_char d = ''0123456789'' ! d"

fun digits_of :: "nat \<Rightarrow> string" where
  "digits_of n = (if n < 10 then [digit_char n] else digits_of (n div 10) @ [digit_char (n mod 10)])"

declare digits_of.simps [simp del]

text \<open>The grouping of the format \<open>,\<close>: a comma before every group of three digits,
  counted from the right; the function works on the reversed digits.\<close>

fun group3 :: "string \<Rightarrow> string" where
  "group3 (a # b # c # d # rest) = a # b # c # CHR '','' # group3 (d # rest)"
| "group3 ds = ds"

definition comma_digits :: "nat \<Rightarrow> string" where
  "comma_digits n = rev (group3 (rev (digits_of n)))"

text \<open>\<open>f'{item:,}'\<close> for an integer.\<close>

definition format_int_comma :: "int \<Rightarrow> string" where
  "format_int_comma i =
     (if i < 0 then CHR ''-'' # comma_digits (nat (- i)) else comma_digits (nat i))"

text \<open>Rounding to the nearest integer, a tie to the even one, as float formatting
  rounds the exact value.\<close>

definition round_half_even :: "rat \<Rightarrow> int" where
  "round_half_even x =
     (let f = \<lfloor>x\<rfloor>; r = x - of_int f
      in if r < 1 / 2 then f else if 1 / 2 < r then f + 1 else if even f then f else f + 1)"

definition pad3 :: "string \<Rightarrow> string" where
  "pad3 ds = replicate (3 - length ds) (CHR ''0'') @ ds"

text \<open>\<open>f'{item:.3f}'\<close> and, with grouping, \<open>f'{item:,.3f}'\<close> for a number.\<close>

definition format_f3 :: "bool \<Rightarrow> rat \<Rightarrow> string" where
  "format_f3 grouping x =
     (let n = nat (round_half_even (\<bar>x\<bar> * 1000));
          whole = (if grouping then comma_digits (n div 1000) else digits_of (n div 1000))
      in (if x < 0 then ''-'' else []) @ whole @ ''.'' @ pad3 (digits_of (n mod 1000)))"

text \<open>\<open>s.find(sub)\<close>: the first position of \<open>sub\<close>, or \<open>-1\<close>.\<close>

definition str_find :: "string \<Rightarrow> string \<Rightarrow> int" where
  "str_find s sub = (case str_index s sub of Inl e \<Rightarrow> - 1 | Inr n \<Rightarrow> int n)"

text \<open>
  \<open>formatItem\<close>: every exception inside is caught and raised again as one
  \<open>Exception\<close> with a message (\<open>FormatException\<close>). \<open>item.is_integer\<close> is the method
  itself, not a call, and as such always true, so it does not show in the model.
  A \<open>bool\<close> is formatted by the integer branch; \<open>item in [True, False]\<close> is then false
  for whatever is left, a string.
\<close>

definition formatItem :: "pyval \<Rightarrow> string \<Rightarrow> error + string" where
  "formatItem item columnDisplayName =
     (if item = PNone then Inr ''?''
      else if columnDisplayName \<in> set [''seconds''] \<and> truthy item then
        (case num_of item of
           Some x \<Rightarrow> Inr (format_f3 False x)
         | None \<Rightarrow> Inl FormatException)
      else if columnDisplayName = ''datetime'' then
        (case item of
           PStr s \<Rightarrow> Inr (slice_to s (str_find s ''.''))
         | _ \<Rightarrow> Inl FormatException)
      else
        (let item' =
               (case item of
                  PFloat x \<Rightarrow> (if \<bar>x\<bar> \<ge> 1000 then PInt (py_trunc x) else item)
                | _ \<Rightarrow> item)
         in case item' of
              PInt i \<Rightarrow> Inr (format_int_comma i)
            | PBool b \<Rightarrow> Inr (format_int_comma (if b then 1 else 0))
            | PFloat x \<Rightarrow> Inr (format_f3 True x)
            | PStr s \<Rightarrow> Inr s
            | PNone \<Rightarrow> Inr ''None''))"

section \<open>StatusLinesAnnotator\<close>

definition COLUMN_DISPLAY_NAMES :: "string odict" where
  "COLUMN_DISPLAY_NAMES =
     [(''datetime'', ''datetime''),
      (''seconds'', ''seconds''),
      (''line num'', ''line num''),
      (''iq'', ''iq=queued input''),
      (''icq'', ''icq=queued input public''),
      (''oq'', ''oq=queued output''),
      (''rq'', ''rq=queued route''),
      (''runq'', ''runq=queued ctxs''),
      (''nc'', ''nc=ext+int consumers''),
      (''=rx /sec'', ''rx /sec''),
      (''=tx /sec'', ''tx /sec''),
      (''=rt /sec'', ''rt /sec''),
      (''rx'', ''rx=received''),
      (''tx'', ''tx=sent''),
      (''rt'', ''rt=routed''),
      (''sm'', ''sm=monitor instances''),
      (''nctx'', ''nctx=contexts''),
      (''ls'', ''ls=listeners''),
      (''pm'', ''pm=resident MB''),
      (''vm'', ''vm=virtual MB''),
      (''jvm'', ''jvm=Java MB''),
      (''=pm delta MB'', ''pm delta MB''),
      (''=vm delta MB'', ''vm delta MB''),
      (''=jvm delta MB'', ''jvm delta MB''),
      (''si'', ''si=swap pages read/sec''),
      (''so'', ''so=swap pages written/sec''),
      (''lcn'', ''lcn=slowest ctx''),
      (''lcq'', ''lcq=slowest ctx input queue''),
      (''lct'', ''lct=slowest ctx latency secs''),
      (''srn'', ''srn=slowest consumer/plugin''),
      (''srq'', ''srq=slowest consumer/plugin queue'')]"

text \<open>
  \<open>decideColumns\<close>, first loop: over the display-name table, with the columns chosen
  so far and the keys of the status that are not yet used (\<open>allkeys\<close>).
\<close>

fun decide_known :: "string odict \<Rightarrow> string odict \<Rightarrow> string list \<Rightarrow> string odict \<times> string list" where
  "decide_known [] cols allkeys = (cols, allkeys)"
| "decide_known ((k, name) # rest) cols allkeys =
     (if startswith k ''='' then decide_known rest (od_set cols k name) allkeys
      else if k \<in> set allkeys then decide_known rest (od_set cols k name) (removeAll k allkeys)
      else decide_known rest cols allkeys)"

text \<open>Second loop: the keys of the status that the table does not know, in their order,
  under their own name.\<close>

definition decideColumns :: "pyval odict \<Rightarrow> string odict" where
  "decideColumns status =
     (case decide_known COLUMN_DISPLAY_NAMES [] (map fst status) of
        (cols, allkeys) \<Rightarrow>
          fold (\<lambda>k c. if k \<in> set allkeys then od_set c k k else c) (map fst status) cols)"

text \<open>A rate: \<open>(status[x]-previousStatus[x])/(seconds-previousStatus['seconds'])\<close>,
  evaluated in Python's order.\<close>

definition rate :: "string \<Rightarrow> pyval odict \<Rightarrow> pyval odict \<Rightarrow> pyval \<Rightarrow> error + pyval" where
  "rate x status prev seconds =
     and_then (od_item status x) (\<lambda>a.
     and_then (od_item prev x) (\<lambda>b.
     and_then (py_sub a b) (\<lambda>num.
     and_then (od_item prev ''seconds'') (\<lambda>ps.
     and_then (py_sub seconds ps) (\<lambda>den.
     py_truediv num den)))))"

text \<open>A memory delta: \<open>(status[x]-previousStatus[x])/1024.0\<close>.\<close>

definition delta_mb :: "string \<Rightarrow> pyval odict \<Rightarrow> pyval odict \<Rightarrow> error + pyval" where
  "delta_mb x status prev =
     and_then (od_item status x) (\<lambda>a.
     and_then (od_item prev x) (\<lambda>b.
     and_then (py_sub a b) (\<lambda>num.
     py_truediv num (PFloat 1024))))"

text \<open>The value of a generated column (a key that starts with \<open>=\<close>).\<close>

definition generated_value :: "string \<Rightarrow> pyval odict \<Rightarrow> pyval odict option \<Rightarrow> pyval \<Rightarrow> error + pyval" where
  "generated_value k status previousStatus seconds =
     (case previousStatus of
        None \<Rightarrow> Inr (PInt 0)
      | Some prev \<Rightarrow>
          and_then (od_item prev ''seconds'') (\<lambda>ps.
            if py_eq seconds ps then Inr (PInt 0)
            else if k = ''=rx /sec'' then rate ''rx'' status prev seconds
            else if k = ''=tx /sec'' then rate ''tx'' status prev seconds
            else if k = ''=rt /sec'' then rate ''rt'' status prev seconds
            else if k = ''=pm delta MB'' then delta_mb ''pm'' status prev
            else if k = ''=vm delta MB'' then delta_mb ''vm'' status prev
            else if k = ''=jvm delta MB'' then
              (if od_get prev ''jvm'' \<noteq> None then delta_mb ''jvm'' status prev
               else Inr (PInt (- 1)))
            else Inl AssertionError))"

text \<open>The value of any other column: \<open>status.get(k, None)\<close>, in megabytes for the three
  memory columns.\<close>

definition plain_value :: "string \<Rightarrow> string \<Rightarrow> pyval odict \<Rightarrow> error + pyval" where
  "plain_value k name status =
     (let val = (case od_get status k of None \<Rightarrow> PNone | Some v \<Rightarrow> v)
      in if name \<in> set [''pm=resident MB'', ''vm=virtual MB'', ''jvm=Java MB''] \<and> val \<noteq> PNone
         then py_truediv val (PFloat 1024)
         else Inr val)"

text \<open>The loop \<open>for k in display\<close> of \<open>annotateStatus\<close>, with the dictionary built so far.\<close>

fun annotate_columns ::
  "string odict \<Rightarrow> pyval odict \<Rightarrow> pyval odict option \<Rightarrow> pyval \<Rightarrow> pyval odict \<Rightarrow> error + pyval odict" where
  "annotate_columns [] status previousStatus seconds d = Inr d"
| "annotate_columns ((k, name) # rest) status previousStatus seconds d =
     and_then
       (if startswith k ''='' then generated_value k status previousStatus seconds
        else plain_value k name status)
       (\<lambda>val. annotate_columns rest status previousStatus seconds (od_set d name val))"

definition annotateStatus :: "string odict \<Rightarrow> pyval odict \<Rightarrow> pyval odict option \<Rightarrow> error + pyval odict" where
  "annotateStatus display status previousStatus =
     and_then (od_item status ''seconds'') (\<lambda>seconds.
       annotate_columns display status previousStatus seconds [])"

record annotator =
  previousStatus :: "pyval odict option"
  columns :: "string odict option"

definition fileStarted :: "annotator \<Rightarrow> annotator" where
  "fileStarted st = \<lparr>previousStatus = None, columns = None\<rparr>"

datatype annotated_event =
    EVENT_ANNOTATED_STATUS_DICT_HEADER "string list"
  | EVENT_ANNOTATED_STATUS_DICT "pyval odict"

text \<open>
  \<open>handleStatusDict\<close>: the result is the new state and what it publishes, the header
  with the display names when the columns are decided here, then the annotated status.
  (The header's \<open>extraInfo\<close>, the version of the analyzer, is left out.)
\<close>

definition handleStatusDict :: "pyval odict \<Rightarrow> annotator \<Rightarrow> error + (annotator \<times> annotated_event list)" where
  "handleStatusDict status st =
     (if status = [] then Inl AssertionError
      else
        (let decided =
               (case columns st of
                  None \<Rightarrow> (decideColumns status,
                            [EVENT_ANNOTATED_STATUS_DICT_HEADER (map snd (decideColumns status))])
                | Some c \<Rightarrow> (c, []))
         in and_then (annotateStatus (fst decided) status (previousStatus st)) (\<lambda>annotatedstatus.
              Inr (\<lparr>previousStatus = Some (od_update status annotatedstatus),
                    columns = Some (fst decided)\<rparr>,
                   snd decided @ [EVENT_ANNOTATED_STATUS_DICT annotatedstatus]))))"

section \<open>StatusLineSummarizer\<close>

text \<open>
  The fields of the summarizer; each dictionary field is \<open>None\<close> after
  \<open>handleFileStarted\<close>. \<open>laststatus\<close> and the snapshots refer to annotated statuses
  that nothing changes after they are published.
\<close>

record summarizer =
  status_min :: "pyval odict option"
  status_max :: "pyval odict option"
  status_sum :: "pyval odict option"
  status_0pc :: "pyval odict option"
  status_25pc :: "pyval odict option"
  status_50pc :: "pyval odict option"
  status_75pc :: "pyval odict option"
  status_100pc :: "pyval odict option"
  laststatus :: "pyval odict option"
  samples :: nat

definition handleFileStarted :: "summarizer \<Rightarrow> summarizer" where
  "handleFileStarted st =
     \<lparr>status_min = None, status_max = None, status_sum = None, status_0pc = None,
      status_25pc = None, status_50pc = None, status_75pc = None, status_100pc = None,
      laststatus = None, samples = 0\<rparr>"

text \<open>\<open>self.status_max[k]\<close> and \<open>self.status_max[k] = v\<close> on a field that may be
  \<open>None\<close> (subscripting \<open>None\<close> raises \<open>TypeError\<close>).\<close>

definition stat_item :: "pyval odict option \<Rightarrow> string \<Rightarrow> error + pyval" where
  "stat_item d k = (case d of None \<Rightarrow> Inl TypeError | Some m \<Rightarrow> od_item m k)"

definition stat_set :: "pyval odict option \<Rightarrow> string \<Rightarrow> pyval \<Rightarrow> pyval odict option" where
  "stat_set d k v = map_option (\<lambda>m. od_set m k v) d"

text \<open>\<open>if v > self.status_max[k]: self.status_max[k] = v\<close>\<close>

definition update_max :: "string \<Rightarrow> pyval \<Rightarrow> summarizer \<Rightarrow> error + summarizer" where
  "update_max k v st =
     and_then (stat_item (status_max st) k) (\<lambda>mx.
     and_then (py_gt v mx) (\<lambda>g.
     Inr (if g then st\<lparr>status_max := stat_set (status_max st) k v\<rparr> else st)))"

text \<open>\<open>if v < self.status_min[k]: self.status_min[k] = v\<close>\<close>

definition update_min :: "string \<Rightarrow> pyval \<Rightarrow> summarizer \<Rightarrow> error + summarizer" where
  "update_min k v st =
     and_then (stat_item (status_min st) k) (\<lambda>mn.
     and_then (py_lt v mn) (\<lambda>l.
     Inr (if l then st\<lparr>status_min := stat_set (status_min st) k v\<rparr> else st)))"

text \<open>
  \<open>if v != 0\<close>: a value of a column whose first value is a float is scaled to
  \<open>int(100000*v)\<close>, then added to the sum.
\<close>

definition update_sum :: "string \<Rightarrow> pyval \<Rightarrow> summarizer \<Rightarrow> error + summarizer" where
  "update_sum k v st =
     (if py_eq v (PInt 0) then Inr st
      else
        and_then (stat_item (status_0pc st) k) (\<lambda>first.
        and_then (if is_float first then and_then (py_mul (PInt 100000) v) py_int_of else Inr v)
          (\<lambda>v'.
        and_then (stat_item (status_sum st) k) (\<lambda>s.
        and_then (py_add s v') (\<lambda>s'.
        Inr (st\<lparr>status_sum := stat_set (status_sum st) k s'\<rparr>))))))"

text \<open>The body of \<open>for k, v in status.items()\<close>.\<close>

definition handle_item :: "string \<times> pyval \<Rightarrow> summarizer \<Rightarrow> error + summarizer" where
  "handle_item item st =
     (if is_str (snd item) then Inr st
      else
        and_then (update_max (fst item) (snd item) st) (\<lambda>st1.
        and_then (update_min (fst item) (snd item) st1) (\<lambda>st2.
        update_sum (fst item) (snd item) st2)))"

fun handle_items :: "(string \<times> pyval) list \<Rightarrow> summarizer \<Rightarrow> error + summarizer" where
  "handle_items [] st = Inr st"
| "handle_items (item # items) st = and_then (handle_item item st) (handle_items items)"

definition handleAnnotatedStatus :: "pyval odict \<Rightarrow> summarizer \<Rightarrow> error + summarizer" where
  "handleAnnotatedStatus status st =
     (let st1 =
            (if laststatus st = None
             then st\<lparr>status_0pc := Some status,
                     status_sum := Some (map (\<lambda>item. (fst item, PInt 0)) status),
                     status_min := Some status,
                     status_max := Some status\<rparr>
             else st);
          st2 = st1\<lparr>laststatus := Some status, samples := samples st1 + 1\<rparr>
      in handle_items status st2)"

text \<open>Truth value of a field that holds a dictionary or \<open>None\<close>, and \<open>a or b\<close>.\<close>

definition dict_truthy :: "pyval odict option \<Rightarrow> bool" where
  "dict_truthy d = (case d of None \<Rightarrow> False | Some m \<Rightarrow> m \<noteq> [])"

definition dict_or :: "pyval odict option \<Rightarrow> pyval odict option \<Rightarrow> pyval odict option" where
  "dict_or a b = (if dict_truthy a then a else b)"

definition numberOrEmpty :: "pyval \<Rightarrow> pyval" where
  "numberOrEmpty v = (if v = PNone \<or> is_str v then PStr [] else v)"

text \<open>
  \<open>calcmean\<close>, the mean of column \<open>k\<close>. \<open>self.status_0pc.get(k, '')\<close> is the empty
  string for a column the first status does not have.
\<close>

definition calcmean :: "summarizer \<Rightarrow> string \<Rightarrow> error + pyval" where
  "calcmean st k =
     and_then (stat_item (status_sum st) k) (\<lambda>v.
       case status_0pc st of
         None \<Rightarrow> Inl AttributeError
       | Some zero \<Rightarrow>
           (let first = (case od_get zero k of None \<Rightarrow> PStr [] | Some f \<Rightarrow> f)
            in if v = PNone \<or> is_str v \<or> is_str first then Inr (PStr [])
               else
                 and_then (if is_float first then py_truediv v (PFloat 100000) else Inr v) (\<lambda>v1.
                 and_then (py_truediv v1 (PFloat (of_nat (samples st)))) (\<lambda>v2.
                 (let v3 = (if py_eq v2 (PInt 0) then PInt 0 else v2)
                  in case num_of v3 of
                       None \<Rightarrow> Inl TypeError
                     | Some x \<Rightarrow>
                         (if \<bar>x\<bar> > 1000 \<and> is_int first then py_int_of v3 else Inr v3))))))"

text \<open>A dictionary comprehension \<open>{k: f(k) for k in d}\<close> whose \<open>f\<close> may raise.\<close>

fun comprehension :: "(string \<Rightarrow> error + pyval) \<Rightarrow> string list \<Rightarrow> error + pyval odict" where
  "comprehension f [] = Inr []"
| "comprehension f (k # ks) =
     and_then (f k) (\<lambda>v. and_then (comprehension f ks) (\<lambda>d. Inr ((k, v) # d)))"

text \<open>Iterating over a field that is \<open>None\<close> raises \<open>TypeError\<close>.\<close>

definition stat_keys :: "pyval odict option \<Rightarrow> error + string list" where
  "stat_keys d = (case d of None \<Rightarrow> Inl TypeError | Some m \<Rightarrow> Inr (map fst m))"

text \<open>
  What the summarizer gives out: the warning of a file with too few status lines, or the
  table \<open>rows\<close> of the summary, from which the two summary writers write their files
  (the writers, with their delta lines, are not part of this model).
\<close>

datatype summary_out =
    LogWarnNotEnoughToAnalyze nat
  | SummaryRows "(string \<times> pyval odict option) list"

text \<open>After the table is built, the string columns of the three statistics are set to
  the empty string.\<close>

definition blank_strings :: "summarizer \<Rightarrow> error + summarizer" where
  "blank_strings st =
     (case status_0pc st of
        None \<Rightarrow> Inl TypeError
      | Some zero \<Rightarrow>
          Inr (fold (\<lambda>item s.
                       if is_str (snd item)
                       then s\<lparr>status_sum := stat_set (status_sum s) (fst item) (PStr []),
                              status_min := stat_set (status_min s) (fst item) (PStr []),
                              status_max := stat_set (status_max s) (fst item) (PStr [])\<rparr>
                       else s)
                zero st))"

definition handleFileComplete :: "summarizer \<Rightarrow> error + (summarizer \<times> summary_out list)" where
  "handleFileComplete st =
     (if samples st < 2 \<or> \<not> dict_truthy (laststatus st) \<or> \<not> dict_truthy (status_100pc st)
      then Inr (st, [LogWarnNotEnoughToAnalyze (samples st)])
      else
        and_then (stat_keys (status_min st)) (\<lambda>kmin.
        and_then (comprehension (\<lambda>k. and_then (stat_item (status_min st) k) (\<lambda>v. Inr (numberOrEmpty v))) kmin)
          (\<lambda>minrow.
        and_then (stat_keys (status_sum st)) (\<lambda>ksum.
        and_then (comprehension (calcmean st) ksum) (\<lambda>meanrow.
        and_then (stat_keys (status_max st)) (\<lambda>kmax.
        and_then (comprehension (\<lambda>k. and_then (stat_item (status_max st) k) (\<lambda>v. Inr (numberOrEmpty v))) kmax)
          (\<lambda>maxrow.
        and_then (blank_strings st) (\<lambda>st'.
        Inr (st',
             [SummaryRows
                [(''0% (start)'', status_0pc st),
                 (''25%'', status_25pc st),
                 (''50%'', status_50pc st),
                 (''75%'', status_75pc st),
                 (''100% (end)'', status_100pc st),
                 ([], None),
                 (''min'', Some minrow),
                 (''mean'', Some meanrow),
                 (''max'', Some maxrow)]])))))))))"

definition handleFilePercentComplete :: "nat \<Rightarrow> summarizer \<Rightarrow> error + (summarizer \<times> summary_out list)" where
  "handleFilePercentComplete percent st =
     (let st1 = (if percent \<ge> 25 then st\<lparr>status_25pc := dict_or (status_25pc st) (laststatus st)\<rparr> else st);
          st2 = (if percent \<ge> 50 then st1\<lparr>status_50pc := dict_or (status_50pc st1) (laststatus st1)\<rparr> else st1);
          st3 = (if percent \<ge> 75 then st2\<lparr>status_75pc := dict_or (status_75pc st2) (laststatus st2)\<rparr> else st2);
          st4 = (if percent = 100 then st3\<lparr>status_100pc := laststatus st3\<rparr> else st3)
      in if percent = 100 then handleFileComplete st4 else Inr (st4, []))"

text \<open>
  The events the summarizer is subscribed to and their handlers. (The header event only
  stores the column names for the summary writers.)
\<close>

datatype summarizer_event =
    FileStarted
  | AnnotatedStatus "pyval odict"
  | PercentComplete nat

definition summarizer_listener :: "summarizer_event \<Rightarrow> summarizer \<Rightarrow> error + (summarizer \<times> summary_out list)" where
  "summarizer_listener ev st =
     (case ev of
        FileStarted \<Rightarrow> Inr (handleFileStarted st, [])
      | AnnotatedStatus status \<Rightarrow> and_then (handleAnnotatedStatus status st) (\<lambda>st'. Inr (st', []))
      | PercentComplete percent \<Rightarrow> handleFilePercentComplete percent st)"

section \<open>Notions used to state the properties\<close>





section \<open>Example inputs\<close>

definition status_line_quoted :: LogLine where
  "status_line_quoted =
     \<lparr>lineno = 7,
      message = ''Correlator Status: lcn='' @ [dquote] @ ''1,000'' @ [dquote] @ '' rx=1,000'',
      datetimestring = ''2019-09-12 10:00:00.123'',
      timestamp = Some 1568282400.123\<rparr>"

definition first_file :: "nat \<times> file_line list" where
  "first_file =
     (26,
      [\<lparr>line_chars = 26, line_blank = False, line_message = ''Correlator Status: rx=1'',
        line_datetimestring = ''2019-09-12 10:00:00.000'', line_timestamp = Some 1568282400\<rparr>])"

definition second_file :: "nat \<times> file_line list" where
  "second_file =
     (26,
      [\<lparr>line_chars = 26, line_blank = False, line_message = ''Correlator Status: rx=2'',
        line_datetimestring = ''2019-09-13 10:00:00.000'', line_timestamp = Some 1568368800\<rparr>])"

definition first_file_status :: "pyval odict" where
  "first_file_status =
     [(''datetime'', PStr ''2019-09-12 10:00:00.000''), (''seconds'', PFloat 1568282400),
      (''line num'', PInt 1), (''rx'', PInt 1)]"

definition second_file_status :: "pyval odict" where
  "second_file_status =
     [(''datetime'', PStr ''2019-09-13 10:00:00.000''), (''seconds'', PFloat 1568368800),
      (''line num'', PInt 1), (''rx'', PInt 2)]"



definition rate_display :: "string odict" where
  "rate_display = [(''seconds'', ''seconds''), (''=rx /sec'', ''rx /sec''), (''rx'', ''rx=received'')]"


definition one_column :: "string \<Rightarrow> int \<Rightarrow> int \<Rightarrow> int \<Rightarrow> int \<Rightarrow> int \<Rightarrow> nat \<Rightarrow> summarizer" where
  "one_column k first mn mx sm lst n =
     \<lparr>status_min = Some [(k, PInt mn)], status_max = Some [(k, PInt mx)],
      status_sum = Some [(k, PInt sm)], status_0pc = Some [(k, PInt first)],
      status_25pc = None, status_50pc = None, status_75pc = None, status_100pc = None,
      laststatus = Some [(k, PInt lst)], samples = n\<rparr>"




text \<open>Two combined statuses of one file.\<close>

definition sample_first :: "pyval odict" where
  "sample_first =
     [(''seconds'', PFloat 10), (''rx'', PInt 100), (''tx'', PInt 50), (''rt'', PInt 0),
      (''pm'', PInt 2048), (''vm'', PInt 4096), (''zz'', PStr ''x'')]"

definition sample_second :: "pyval odict" where
  "sample_second =
     [(''seconds'', PFloat 20), (''rx'', PInt 300), (''tx'', PInt 60), (''rt'', PInt 0),
      (''pm'', PInt 1024), (''vm'', PInt 4096), (''zz'', PStr ''y'')]"

section \<open>Verified properties\<close>

subsection \<open>Helper lemmas on the scanner and on dictionaries\<close>

lemma scan_key_token:
  "CHR ''='' \<notin> set key \<Longrightarrow> scan_key acc (key @ CHR ''='' # r) = (acc @ key, CHR ''='' # r)"
  by (induction key arbitrary: acc) auto

lemma scan_val_stop:
  "rest = [] \<or> hd rest = e \<Longrightarrow> scan_val e acc rest = (acc, rest)"
  by (cases rest) auto

lemma scan_val_unquoted:
  "CHR '' '' \<notin> set v \<Longrightarrow> rest = [] \<or> hd rest = CHR '' '' \<Longrightarrow>
   scan_val (CHR '' '') acc (v @ rest) = (acc @ v, rest)"
  by (induction v arbitrary: acc) (auto simp: scan_val_stop)

lemma od_get_set: "od_get (od_set d k v) k' = (if k' = k then Some v else od_get d k')"
  by (simp add: od_get_def od_set_def update_conv')



lemma od_keys_set: "fst ` set (od_set d k v) = insert k (fst ` set d)"
  by (simp add: od_set_def dom_update)

lemma od_set_distinct: "distinct (map fst d) \<Longrightarrow> distinct (map fst (od_set d k v))"
  by (simp add: od_set_def distinct_update)


subsection \<open>Quoted and unquoted values\<close>

text \<open>
  C1 (evaluation of the code): on the status line
  \<open>Correlator Status: lcn="1,000" rx=1,000\<close> the scanner stores the quoted value
  without its comma, \<open>1000\<close>, and keeps the comma of the unquoted value, which then
  fails \<open>int()\<close> and stays the string \<open>1,000\<close>: the condition in the value loop
  drops a comma exactly when the value is quoted.
\<close>

theorem quoted_value_commas_removed:
  "extract_status EVENT_CORRELATOR_STATUS_DICT status_line_quoted =
     Inr [(''datetime'', PStr ''2019-09-12 10:00:00.123''),
          (''seconds'', PFloat 1568282400.123),
          (''line num'', PInt 7),
          (''lcn'', PStr ''1000''),
          (''rx'', PStr ''1,000'')]"
  unfolding status_line_quoted_def by code_simp

text \<open>
  C6: for every unquoted value token \<open>key=v\<close> (the value has no space and does not
  start with a quote; it ends the message or a space follows), one pass of the scanner
  does not raise and stores under the key: the float of \<open>v\<close> when \<open>v\<close> contains a
  point and \<open>float()\<close> accepts it, the integer of \<open>v\<close> when \<open>v\<close> has no point and
  \<open>int()\<close> accepts it, and the text \<open>v\<close> itself when the conversion fails. The scan
  then goes on with the rest of the message.
\<close>

theorem unquoted_value_coerced:
  assumes key: "CHR ''='' \<notin> set key"
    and v: "CHR '' '' \<notin> set v" "v \<noteq> [] \<longrightarrow> hd v \<noteq> dquote"
    and rest: "rest = [] \<or> hd rest = CHR '' ''" "v @ rest \<noteq> []"
  shows "\<exists>val. scan_field knd (key @ ''='' @ v @ rest) d =
           Inr (skip_separators rest,
                od_set d (if knd = EVENT_JMS_STATUS_DICT then ''jms.'' @ key else key) val)
         \<and> scan_fields knd (key @ ''='' @ v @ rest) d =
           scan_fields knd (skip_separators rest)
             (od_set d (if knd = EVENT_JMS_STATUS_DICT then ''jms.'' @ key else key) val)
         \<and> (CHR ''.'' \<in> set v \<longrightarrow>
              val = (case py_float v of Some f \<Rightarrow> PFloat f | None \<Rightarrow> PStr v))
         \<and> (CHR ''.'' \<notin> set v \<longrightarrow>
              val = (case py_int v of Some n \<Rightarrow> PInt n | None \<Rightarrow> PStr v))"
proof -
  obtain q r3 where r2: "v @ rest = q # r3" using rest(2) by (cases "v @ rest") auto
  have q: "q \<noteq> dquote"
  proof (cases v)
    case Nil
    with r2 rest show ?thesis by auto
  next
    case (Cons c cs)
    with r2 v(2) show ?thesis by auto
  qed
  have k: "scan_key [] (key @ ''='' @ v @ rest) = (key, CHR ''='' # v @ rest)"
    using scan_key_token [OF key, of "[]" "v @ rest"] by simp
  have s: "scan_val (CHR '' '') [] (q # r3) = (v, rest)"
    using scan_val_unquoted [OF v(1) rest(1), of "[]"] r2 by simp
  define key' where "key' = (if knd = EVENT_JMS_STATUS_DICT then ''jms.'' @ key else key)"
  have one: "scan_field knd (key @ CHR ''='' # v @ rest) d =
          Inr (skip_separators rest, od_set d key' (coerce v))"
    unfolding scan_field_def using k r2 q s by (simp add: Let_def key'_def)
  have loop: "scan_fields knd (key @ CHR ''='' # v @ rest) d =
          scan_fields knd (skip_separators rest) (od_set d key' (coerce v))"
    by (subst scan_fields.simps) (simp add: one)
  from one loop show ?thesis
    unfolding key'_def by (intro exI [of _ "coerce v"]) (simp add: coerce_def)
qed

theorem unquoted_value_coerced_witness:
  "scan_field EVENT_CORRELATOR_STATUS_DICT ''rx=42 tx=3.14 lcn=abc'' [] =
     Inr (''tx=3.14 lcn=abc'', [(''rx'', PInt 42)])
   \<and> scan_field EVENT_CORRELATOR_STATUS_DICT ''tx=3.14 lcn=abc'' [] =
     Inr (''lcn=abc'', [(''tx'', PFloat 3.14)])
   \<and> scan_field EVENT_CORRELATOR_STATUS_DICT ''lcn=abc'' [] =
     Inr ([], [(''lcn'', PStr ''abc'')])"
proof -
  have a: "py_int ''42'' = Some 42" by code_simp
  have b: "py_float ''3.14'' = Some 3.14" by code_simp
  have c: "py_int ''abc'' = None" by code_simp
  show ?thesis
    using unquoted_value_coerced [of "''rx''" "''42''" "'' tx=3.14 lcn=abc''"
        EVENT_CORRELATOR_STATUS_DICT "[]"]
      unquoted_value_coerced [of "''tx''" "''3.14''" "'' lcn=abc''"
        EVENT_CORRELATOR_STATUS_DICT "[]"]
      unquoted_value_coerced [of "''lcn''" "''abc''" "[]" EVENT_CORRELATOR_STATUS_DICT "[]"]
    by (simp add: a b c skip_separators_def od_set_def)
qed

subsection \<open>The pairing state across files\<close>

text \<open>
  C2 (evaluation of the code): the extractor is not subscribed to the file-start event,
  so nothing resets its state between files. After a first file with one status line
  that line's dictionary is pending; the file-start event of the second file leaves it
  pending, and the first status line of the second file publishes the dictionary of the
  first file before its own and fixes the state as "no JMS".
\<close>

theorem extractor_state_survives_file_start:
  "publish_all extractor_listener (processFile first_file) register_extractor =
     ([], Inr (\<lparr>jmsenabled = None, previous = Some first_file_status\<rparr>, []))
   \<and> publish_all extractor_listener [EVENT_FILE_STARTED]
        \<lparr>jmsenabled = None, previous = Some first_file_status\<rparr> =
     ([], Inr (\<lparr>jmsenabled = None, previous = Some first_file_status\<rparr>, []))
   \<and> publish_all extractor_listener (processFiles [first_file, second_file]) register_extractor =
     ([], Inr (\<lparr>jmsenabled = Some False, previous = None\<rparr>,
               [first_file_status, second_file_status]))"
  unfolding first_file_def second_file_def first_file_status_def second_file_status_def
  by code_simp

subsection \<open>A JMS status with nothing pending\<close>



subsection \<open>Merging a pending status with a JMS status\<close>




subsection \<open>Steps that may raise, and arithmetic\<close>

lemma and_then_Inr: "and_then r f = Inr y \<longleftrightarrow> (\<exists>v. r = Inr v \<and> f v = Inr y)"
  by (cases r) (auto simp: and_then_def)

lemma and_then_Inl: "and_then r f = Inl e \<longleftrightarrow> (r = Inl e \<or> (\<exists>v. r = Inr v \<and> f v = Inl e))"
  by (cases r) (auto simp: and_then_def)

lemma od_item_Inr: "od_item d k = Inr v \<longleftrightarrow> od_get d k = Some v"
  by (auto simp: od_item_def split: option.splits)

lemma od_item_not_zerodiv: "od_item d k \<noteq> Inl ZeroDivisionError"
  by (auto simp: od_item_def split: option.splits)

lemma arith_Inr:
  "arith fi fr a b = Inr r \<Longrightarrow> (\<And>x y. of_int (fi x y) = fr (of_int x) (of_int y)) \<Longrightarrow>
   \<exists>na nb. num_of a = Some na \<and> num_of b = Some nb \<and> num_of r = Some (fr na nb)"
  by (cases a; cases b) (auto simp: arith_def split: if_splits)

lemma arith_not_zerodiv: "arith fi fr a b \<noteq> Inl ZeroDivisionError"
  by (auto simp: arith_def split: option.splits)

lemma py_sub_Inr:
  "py_sub a b = Inr r \<Longrightarrow>
   \<exists>na nb. num_of a = Some na \<and> num_of b = Some nb \<and> num_of r = Some (na - nb)"
  unfolding py_sub_def by (erule arith_Inr) simp

lemma py_truediv_Inr:
  "py_truediv a b = Inr r \<longleftrightarrow>
   (\<exists>na nb. num_of a = Some na \<and> num_of b = Some nb \<and> nb \<noteq> 0 \<and> r = PFloat (na / nb))"
  by (auto simp: py_truediv_def split: option.splits)

lemma py_truediv_zerodiv:
  "py_truediv a b = Inl ZeroDivisionError \<longleftrightarrow> (num_of a \<noteq> None \<and> num_of b = Some 0)"
  by (auto simp: py_truediv_def split: option.splits)

lemma py_eq_num: "num_of a = Some x \<Longrightarrow> num_of b = Some y \<Longrightarrow> py_eq a b = (x = y)"
  by (simp add: py_eq_def)

lemma rate_not_zerodiv:
  assumes "od_get prev ''seconds'' = Some ps" "\<not> py_eq seconds ps"
  shows "rate x status prev seconds \<noteq> Inl ZeroDivisionError"
proof
  assume "rate x status prev seconds = Inl ZeroDivisionError"
  then obtain num den where s: "py_sub seconds ps = Inr den" and d: "py_truediv num den = Inl ZeroDivisionError"
    using assms(1)
    by (auto simp: rate_def and_then_Inl od_item_not_zerodiv od_item_Inr py_sub_def arith_not_zerodiv)
  from py_sub_Inr [OF s] obtain ns np where n: "num_of seconds = Some ns" "num_of ps = Some np" "num_of den = Some (ns - np)"
    by blast
  from d n have "ns = np" by (simp add: py_truediv_zerodiv)
  with n assms(2) show False by (simp add: py_eq_num)
qed

lemma delta_mb_not_zerodiv: "delta_mb x status prev \<noteq> Inl ZeroDivisionError"
  by (auto simp: delta_mb_def and_then_Inl od_item_not_zerodiv py_sub_def arith_not_zerodiv py_truediv_zerodiv)

lemma generated_value_not_zerodiv: "generated_value k status prv seconds \<noteq> Inl ZeroDivisionError"
  by (auto simp: generated_value_def and_then_Inl od_item_not_zerodiv od_item_Inr rate_not_zerodiv delta_mb_not_zerodiv split: option.splits)

lemma plain_value_not_zerodiv: "plain_value k name status \<noteq> Inl ZeroDivisionError"
  by (auto simp: plain_value_def Let_def py_truediv_zerodiv)

lemma annotate_columns_not_zerodiv:
  "annotate_columns display status prv seconds d \<noteq> Inl ZeroDivisionError"
proof (induction display arbitrary: d)
  case Nil
  show ?case by simp
next
  case (Cons c display)
  obtain k name where c: "c = (k, name)" by (cases c)
  show ?case
    using Cons.IH by (auto simp: c and_then_Inl generated_value_not_zerodiv plain_value_not_zerodiv)
qed

lemma annotateStatus_not_zerodiv: "annotateStatus display status prv \<noteq> Inl ZeroDivisionError"
  by (auto simp: annotateStatus_def and_then_Inl od_item_not_zerodiv annotate_columns_not_zerodiv)

subsection \<open>Rates of the annotator\<close>

lemma annotate_columns_other:
  "annotate_columns display status prv seconds d0 = Inr d \<Longrightarrow> name \<notin> snd ` set display \<Longrightarrow>
   od_get d name = od_get d0 name"
proof (induction display arbitrary: d0)
  case Nil
  then show ?case by simp
next
  case (Cons c display)
  obtain k' name' where c: "c = (k', name')" by (cases c)
  from Cons.prems c obtain val where
    rest: "annotate_columns display status prv seconds (od_set d0 name' val) = Inr d"
    by (auto simp: and_then_Inr)
  from Cons.prems(2) c have "name \<noteq> name'" "name \<notin> snd ` set display" by auto
  with Cons.IH [OF rest] show ?case by (simp add: od_get_set)
qed

lemma annotate_columns_keys:
  "annotate_columns display status prv seconds d0 = Inr d \<Longrightarrow>
   fst ` set d = fst ` set d0 \<union> snd ` set display"
proof (induction display arbitrary: d0)
  case Nil
  then show ?case by simp
next
  case (Cons c display)
  obtain k' name' where c: "c = (k', name')" by (cases c)
  from Cons.prems c obtain val where
    rest: "annotate_columns display status prv seconds (od_set d0 name' val) = Inr d"
    by (auto simp: and_then_Inr)
  from Cons.IH [OF rest] show ?case by (auto simp: c od_keys_set)
qed

lemma annotate_columns_generated:
  assumes "annotate_columns display status prv seconds d0 = Inr d"
    and "(k, name) \<in> set display"
    and "startswith k ''=''"
    and "\<forall>(k', name') \<in> set display. name' = name \<longrightarrow> k' = k"
  shows "\<exists>val. generated_value k status prv seconds = Inr val \<and> od_get d name = Some val"
  using assms
proof (induction display arbitrary: d0)
  case Nil
  then show ?case by simp
next
  case (Cons c display)
  obtain k' name' where c: "c = (k', name')" by (cases c)
  from Cons.prems(1) c obtain val where
    hd: "(if startswith k' ''='' then generated_value k' status prv seconds
          else plain_value k' name' status) = Inr val"
    and rest: "annotate_columns display status prv seconds (od_set d0 name' val) = Inr d"
    by (auto simp: and_then_Inr)
  from Cons.prems(4) have uniq: "\<forall>(k', name') \<in> set display. name' = name \<longrightarrow> k' = k" by auto
  show ?case
  proof (cases "(k, name) \<in> set display")
    case True
    from Cons.IH [OF rest True Cons.prems(3) uniq] show ?thesis .
  next
    case False
    with Cons.prems(2) c have same: "k' = k" "name' = name" by auto
    from False uniq have "name \<notin> snd ` set display" by force
    from annotate_columns_other [OF rest this] have "od_get d name = Some val"
      by (simp add: same od_get_set)
    with hd same Cons.prems(3) show ?thesis by simp
  qed
qed

text \<open>
  C5: when \<open>annotateStatus\<close> returns, a rate column (\<open>=rx /sec\<close>, \<open>=tx /sec\<close>,
  \<open>=rt /sec\<close>, whose source field \<open>x\<close> is \<open>rx\<close>, \<open>tx\<close>, \<open>rt\<close>) whose display
  name no other column writes holds 0 when there is no previous status or when the two
  \<open>seconds\<close> are equal, and otherwise the float
  \<open>(status[x] - previous[x]) / (seconds - previous.seconds)\<close>, with a divisor that is
  not zero. \<open>annotateStatus\<close> never raises \<open>ZeroDivisionError\<close>, whatever its
  arguments. The witness is the pair \<open>{seconds: 10, rx: 100}\<close>,
  \<open>{seconds: 20, rx: 300}\<close> with rate 20, and a pair with equal seconds with rate 0.
\<close>

theorem rate_columns:
  assumes ann: "annotateStatus display status prv = Inr d"
    and col: "(k, name) \<in> set display"
    and kx: "(k, x) \<in> {(''=rx /sec'', ''rx''), (''=tx /sec'', ''tx''), (''=rt /sec'', ''rt'')}"
    and uniq: "\<forall>(k', name') \<in> set display. name' = name \<longrightarrow> k' = k"
  shows "annotateStatus display status prv \<noteq> Inl ZeroDivisionError
    \<and> (\<exists>seconds. od_get status ''seconds'' = Some seconds \<and>
         (case prv of
            None \<Rightarrow> od_get d name = Some (PInt 0)
          | Some prev \<Rightarrow>
              (\<exists>ps. od_get prev ''seconds'' = Some ps \<and>
                 (if py_eq seconds ps then od_get d name = Some (PInt 0)
                  else (\<exists>a b na nb ns np.
                          od_get status x = Some a \<and> od_get prev x = Some b
                        \<and> num_of a = Some na \<and> num_of b = Some nb
                        \<and> num_of seconds = Some ns \<and> num_of ps = Some np \<and> ns \<noteq> np
                        \<and> od_get d name = Some (PFloat ((na - nb) / (ns - np))))))))"
proof -
  from ann obtain seconds where sec: "od_get status ''seconds'' = Some seconds"
    and cols: "annotate_columns display status prv seconds [] = Inr d"
    by (auto simp: annotateStatus_def and_then_Inr od_item_Inr)
  from kx have gen: "startswith k ''=''" by (auto simp: startswith_def)
  from annotate_columns_generated [OF cols col gen uniq] obtain val where
    gv: "generated_value k status prv seconds = Inr val" and got: "od_get d name = Some val"
    by blast
  have "case prv of
          None \<Rightarrow> od_get d name = Some (PInt 0)
        | Some prev \<Rightarrow>
            (\<exists>ps. od_get prev ''seconds'' = Some ps \<and>
               (if py_eq seconds ps then od_get d name = Some (PInt 0)
                else (\<exists>a b na nb ns np.
                        od_get status x = Some a \<and> od_get prev x = Some b
                      \<and> num_of a = Some na \<and> num_of b = Some nb
                      \<and> num_of seconds = Some ns \<and> num_of ps = Some np \<and> ns \<noteq> np
                      \<and> od_get d name = Some (PFloat ((na - nb) / (ns - np))))))"
  proof (cases prv)
    case None
    with gv got show ?thesis by (simp add: generated_value_def)
  next
    case (Some prev)
    from gv Some obtain ps where ps: "od_get prev ''seconds'' = Some ps"
      and body: "(if py_eq seconds ps then Inr (PInt 0) else rate x status prev seconds) = Inr val"
      using kx by (auto simp: generated_value_def and_then_Inr od_item_Inr split: if_splits)
    show ?thesis
    proof (cases "py_eq seconds ps")
      case True
      with body got ps Some show ?thesis by auto
    next
      case False
      with body have r: "rate x status prev seconds = Inr val" by simp
      then obtain a b num den where a: "od_get status x = Some a" and b: "od_get prev x = Some b"
        and num: "py_sub a b = Inr num" and den: "py_sub seconds ps = Inr den"
        and q: "py_truediv num den = Inr val"
        using ps by (auto simp: rate_def and_then_Inr od_item_Inr)
      from py_sub_Inr [OF num] obtain na nb where
        n: "num_of a = Some na" "num_of b = Some nb" "num_of num = Some (na - nb)" by blast
      from py_sub_Inr [OF den] obtain ns np where
        s: "num_of seconds = Some ns" "num_of ps = Some np" "num_of den = Some (ns - np)" by blast
      from q n s have v: "val = PFloat ((na - nb) / (ns - np))" and nz: "ns \<noteq> np"
        by (auto simp: py_truediv_Inr)
      from a b n s v nz got ps Some False show ?thesis by auto
    qed
  qed
  with sec annotateStatus_not_zerodiv show ?thesis by blast
qed

theorem rate_columns_witness:
  "annotateStatus rate_display [(''seconds'', PInt 20), (''rx'', PInt 300)]
     (Some [(''seconds'', PInt 10), (''rx'', PInt 100)]) =
   Inr [(''seconds'', PInt 20), (''rx /sec'', PFloat 20), (''rx=received'', PInt 300)]
   \<and> annotateStatus rate_display [(''seconds'', PInt 20), (''rx'', PInt 300)]
     (Some [(''seconds'', PInt 20), (''rx'', PInt 100)]) =
   Inr [(''seconds'', PInt 20), (''rx /sec'', PInt 0), (''rx=received'', PInt 300)]"
proof -
  have a: "annotateStatus rate_display [(''seconds'', PInt 20), (''rx'', PInt 300)]
     (Some [(''seconds'', PInt 10), (''rx'', PInt 100)]) =
   Inr [(''seconds'', PInt 20), (''rx /sec'', PFloat 20), (''rx=received'', PInt 300)]"
    unfolding rate_display_def by code_simp
  have b: "annotateStatus rate_display [(''seconds'', PInt 20), (''rx'', PInt 300)]
     (Some [(''seconds'', PInt 20), (''rx'', PInt 100)]) =
   Inr [(''seconds'', PInt 20), (''rx /sec'', PInt 0), (''rx=received'', PInt 300)]"
    unfolding rate_display_def by code_simp
  have col: "(''=rx /sec'', ''rx /sec'') \<in> set rate_display" by (simp add: rate_display_def)
  have kx: "(''=rx /sec'', ''rx'') \<in> {(''=rx /sec'', ''rx''), (''=tx /sec'', ''tx''), (''=rt /sec'', ''rt'')}"
    by simp
  have uniq: "\<forall>(k', name') \<in> set rate_display. name' = ''rx /sec'' \<longrightarrow> k' = ''=rx /sec''"
    by (simp add: rate_display_def)
  from rate_columns [OF a col kx uniq] rate_columns [OF b col kx uniq] a b show ?thesis by simp
qed

subsection \<open>Formatting numbers for the CSV file\<close>

lemma digit_char_in: "d < 10 \<Longrightarrow> digit_char d \<in> set ''0123456789''"
  unfolding digit_char_def by (rule nth_mem) simp

lemma digits_of_chars: "set (digits_of n) \<subseteq> set ''0123456789''"
proof (induction n rule: digits_of.induct)
  case (1 n)
  show ?case
  proof (cases "n < 10")
    case True
    then show ?thesis using digit_char_in [of n] by (subst digits_of.simps) simp
  next
    case False
    have "n mod 10 < 10" by simp
    from digit_char_in [OF this] "1.IH" [OF False] False show ?thesis
      by (subst digits_of.simps) simp
  qed
qed

lemma group3_chars: "set (group3 ds) \<subseteq> insert (CHR '','') (set ds)"
  by (induction ds rule: group3.induct) auto

lemma comma_digits_no_point: "CHR ''.'' \<notin> set (comma_digits n)"
proof -
  have "set (comma_digits n) \<subseteq> insert (CHR '','') (set (digits_of n))"
    using group3_chars [of "rev (digits_of n)"] by (simp add: comma_digits_def)
  with digits_of_chars [of n] show ?thesis by auto
qed

lemma format_int_comma_no_point: "CHR ''.'' \<notin> set (format_int_comma i)"
  by (simp add: format_int_comma_def comma_digits_no_point)

lemma floor_numeral_quot: "\<lfloor>numeral a / numeral b :: rat\<rfloor> = numeral a div numeral b"
  using floor_divide_of_int_eq [of "numeral a" "numeral b", where ?'a = rat] by simp

text \<open>
  C10 (counterexample): in the \<open>seconds\<close> column the float 1234.56 is written with
  its fraction, \<open>1234.560\<close>: the branch for that column returns before the
  conversion to an integer.
\<close>

theorem seconds_float_keeps_fraction:
  "formatItem (PFloat 1234.56) ''seconds'' = Inr ''1234.560''"
  by (simp add: formatItem_def format_f3_def round_half_even_def Let_def floor_numeral_quot
      digits_of.simps digit_char_def pad3_def)

text \<open>
  C10 (amended): in every column other than \<open>seconds\<close> and \<open>datetime\<close>, a float
  of absolute value at least 1000 is formatted as the integer it truncates to, whole or
  not: the text is that of the integer, with thousands separators and without a point
  (1234.56 gives \<open>1,234\<close>).
\<close>

theorem large_float_formatted_as_integer:
  assumes "columnDisplayName \<noteq> ''seconds''" and "columnDisplayName \<noteq> ''datetime''"
    and "\<bar>x\<bar> \<ge> 1000"
  shows "formatItem (PFloat x) columnDisplayName = Inr (format_int_comma (py_trunc x))
       \<and> formatItem (PFloat x) columnDisplayName = formatItem (PInt (py_trunc x)) columnDisplayName
       \<and> CHR ''.'' \<notin> set (format_int_comma (py_trunc x))"
  using assms by (simp add: formatItem_def format_int_comma_no_point)

theorem large_float_formatted_as_integer_witness:
  "formatItem (PFloat 1234.56) ''rx /sec'' = Inr ''1,234''
   \<and> formatItem (PFloat 7000) ''rx /sec'' = Inr ''7,000''"
proof -
  have a: "format_int_comma (py_trunc 1234.56) = ''1,234''"
    by (simp add: format_int_comma_def comma_digits_def py_trunc_def floor_numeral_quot
        digits_of.simps digit_char_def)
  have b: "format_int_comma (py_trunc 7000) = ''7,000''"
    by (simp add: format_int_comma_def comma_digits_def py_trunc_def digits_of.simps digit_char_def)
  have c: "''rx /sec'' \<noteq> ''seconds''" "''rx /sec'' \<noteq> ''datetime''" by simp_all
  have d: "\<bar>1234.56 :: rat\<bar> \<ge> 1000" "\<bar>7000 :: rat\<bar> \<ge> 1000" by simp_all
  from large_float_formatted_as_integer [OF c d(1)] large_float_formatted_as_integer [OF c d(2)] a b
  show ?thesis by simp
qed

subsection \<open>The columns of a file\<close>

lemma publish_all_Cons_Inr:
  assumes "publish_all f (x # xs) s = (logs, Inr (s2, out))"
  shows "\<exists>s1 o1 o2 l2. f x s = Inr (s1, o1) \<and> publish_all f xs s1 = (l2, Inr (s2, o2)) \<and> out = o1 @ o2"
  using assms
  by (auto simp: publish_def split: sum.splits prod.splits)

lemma handleStatusDict_decided:
  assumes "columns st = Some c" and "handleStatusDict status st = Inr (st', out)"
  shows "columns st' = Some c \<and>
         (\<exists>a. out = [EVENT_ANNOTATED_STATUS_DICT a] \<and> fst ` set a = snd ` set c)"
proof -
  from assms obtain a where a: "annotateStatus c status (previousStatus st) = Inr a"
    and st': "st' = \<lparr>previousStatus = Some (od_update status a), columns = Some c\<rparr>"
    and out: "out = [EVENT_ANNOTATED_STATUS_DICT a]"
    by (auto simp: handleStatusDict_def and_then_Inr split: if_splits)
  from a obtain seconds where "annotate_columns c status (previousStatus st) seconds [] = Inr a"
    by (auto simp: annotateStatus_def and_then_Inr)
  from annotate_columns_keys [OF this] st' out show ?thesis by simp
qed

lemma handleStatusDict_undecided:
  assumes "columns st = None" and "handleStatusDict status st = Inr (st', out)"
  shows "columns st' = Some (decideColumns status) \<and>
         (\<exists>a. out = [EVENT_ANNOTATED_STATUS_DICT_HEADER (map snd (decideColumns status)),
                      EVENT_ANNOTATED_STATUS_DICT a]
              \<and> fst ` set a = snd ` set (decideColumns status))"
proof -
  from assms obtain a where
    a: "annotateStatus (decideColumns status) status (previousStatus st) = Inr a"
    and st': "st' = \<lparr>previousStatus = Some (od_update status a), columns = Some (decideColumns status)\<rparr>"
    and out: "out = [EVENT_ANNOTATED_STATUS_DICT_HEADER (map snd (decideColumns status)),
                     EVENT_ANNOTATED_STATUS_DICT a]"
    by (auto simp: handleStatusDict_def and_then_Inr split: if_splits)
  from a obtain seconds where
    "annotate_columns (decideColumns status) status (previousStatus st) seconds [] = Inr a"
    by (auto simp: annotateStatus_def and_then_Inr)
  from annotate_columns_keys [OF this] st' out show ?thesis by simp
qed

lemma publish_all_decided:
  assumes "columns st = Some c" and "publish_all handleStatusDict rs st = (logs, Inr (st', out))"
  shows "columns st' = Some c \<and>
         (\<exists>as. out = map EVENT_ANNOTATED_STATUS_DICT as \<and> length as = length rs
               \<and> (\<forall>a \<in> set as. fst ` set a = snd ` set c))"
  using assms
proof (induction rs arbitrary: st logs out)
  case Nil
  then show ?case by simp
next
  case (Cons r rs)
  from publish_all_Cons_Inr [OF Cons.prems(2)] obtain s1 o1 o2 l2 where
    one: "handleStatusDict r st = Inr (s1, o1)"
    and rest: "publish_all handleStatusDict rs s1 = (l2, Inr (st', o2))"
    and out: "out = o1 @ o2" by blast
  from handleStatusDict_decided [OF Cons.prems(1) one] obtain a where
    s1: "columns s1 = Some c" and o1: "o1 = [EVENT_ANNOTATED_STATUS_DICT a]"
    and ka: "fst ` set a = snd ` set c" by blast
  from Cons.IH [OF s1 rest] obtain as where
    "columns st' = Some c" "o2 = map EVENT_ANNOTATED_STATUS_DICT as" "length as = length rs"
    "\<forall>a \<in> set as. fst ` set a = snd ` set c" by blast
  with out o1 ka show ?case
    by (intro conjI exI [of _ "a # as"]) auto
qed

text \<open>
  C9: the file-start handler sets the columns to undecided. When the combined statuses
  \<open>r, rs\<close> of a file are then handled without an exception, the columns are those
  decided from the first status \<open>r\<close>, also after the last status; the header is
  published once, before the first annotated status; and there is one annotated status
  per combined status, each with exactly the display names of these columns as its keys.
\<close>

theorem columns_decided_once_per_file:
  assumes "publish_all handleStatusDict (r # rs) (fileStarted st0) = (logs, Inr (st, out))"
  shows "columns (fileStarted st0) = None
       \<and> columns st = Some (decideColumns r)
       \<and> (\<exists>as. out = EVENT_ANNOTATED_STATUS_DICT_HEADER (map snd (decideColumns r))
                      # map EVENT_ANNOTATED_STATUS_DICT as
               \<and> length as = length (r # rs)
               \<and> (\<forall>a \<in> set as. fst ` set a = snd ` set (decideColumns r)))"
proof -
  have none: "columns (fileStarted st0) = None" by (simp add: fileStarted_def)
  from publish_all_Cons_Inr [OF assms] obtain s1 o1 o2 l2 where
    one: "handleStatusDict r (fileStarted st0) = Inr (s1, o1)"
    and rest: "publish_all handleStatusDict rs s1 = (l2, Inr (st, o2))"
    and out: "out = o1 @ o2" by blast
  from handleStatusDict_undecided [OF none one] obtain a where
    s1: "columns s1 = Some (decideColumns r)"
    and o1: "o1 = [EVENT_ANNOTATED_STATUS_DICT_HEADER (map snd (decideColumns r)),
                   EVENT_ANNOTATED_STATUS_DICT a]"
    and ka: "fst ` set a = snd ` set (decideColumns r)" by blast
  from publish_all_decided [OF s1 rest] obtain as where
    "columns st = Some (decideColumns r)" "o2 = map EVENT_ANNOTATED_STATUS_DICT as"
    "length as = length rs" "\<forall>a \<in> set as. fst ` set a = snd ` set (decideColumns r)" by blast
  with none out o1 ka show ?thesis
    by (intro conjI exI [of _ "a # as"]) auto
qed

lemma sample_run:
  "case publish_all handleStatusDict [sample_first, sample_second]
          (fileStarted \<lparr>previousStatus = None, columns = None\<rparr>) of
     (logs, Inr (st, out)) \<Rightarrow> logs = [] \<and> length out = 3
   | (logs, Inl e) \<Rightarrow> False"
  unfolding sample_first_def sample_second_def by code_simp

theorem columns_decided_once_per_file_witness:
  "\<exists>st out. publish_all handleStatusDict [sample_first, sample_second]
          (fileStarted \<lparr>previousStatus = None, columns = None\<rparr>) = ([], Inr (st, out))
     \<and> columns st = Some (decideColumns sample_first) \<and> length out = 3"
proof -
  from sample_run obtain st out where
    run: "publish_all handleStatusDict [sample_first, sample_second]
          (fileStarted \<lparr>previousStatus = None, columns = None\<rparr>) = ([], Inr (st, out))"
    and len: "length out = 3"
    by (auto split: prod.splits sum.splits)
  from columns_decided_once_per_file [OF run] run len show ?thesis by blast
qed

subsection \<open>The statistics of one column\<close>





























subsection \<open>The statistics over the events of a file\<close>















subsection \<open>Two runs of the summarizer\<close>


















subsection \<open>Too few statuses for a summary\<close>

text \<open>
  C8: when fewer than two annotated statuses were counted, or the last status or the
  100 percent snapshot is missing or empty, \<open>handleFileComplete\<close> returns without an
  exception, leaves the state as it is and gives out only the warning with the number of
  statuses: no summary table. The 100 percent event of a file with fewer than two
  statuses (or none) is handled in the same way, and \<open>publish\<close> logs no exception.
\<close>

theorem not_enough_samples_skips_summary:
  assumes "samples st < 2 \<or> \<not> dict_truthy (laststatus st) \<or> \<not> dict_truthy (status_100pc st)"
  shows "handleFileComplete st = Inr (st, [LogWarnNotEnoughToAnalyze (samples st)])
       \<and> (samples st < 2 \<or> \<not> dict_truthy (laststatus st) \<longrightarrow>
            (\<exists>st'. publish summarizer_listener (PercentComplete 100) st =
                     ([], Inr (st', [LogWarnNotEnoughToAnalyze (samples st)]))))"
proof -
  have a: "handleFileComplete st = Inr (st, [LogWarnNotEnoughToAnalyze (samples st)])"
    using assms by (auto simp: handleFileComplete_def)
  have b: "\<exists>st'. publish summarizer_listener (PercentComplete 100) st =
                     ([], Inr (st', [LogWarnNotEnoughToAnalyze (samples st)]))"
    if "samples st < 2 \<or> \<not> dict_truthy (laststatus st)"
    using that
    by (auto simp: publish_def summarizer_listener_def handleFilePercentComplete_def Let_def
        handleFileComplete_def)
  from a b show ?thesis by blast
qed

theorem not_enough_samples_skips_summary_witness:
  "handleFileComplete (one_column ''iq=queued input'' 5 5 5 5 5 1) =
     Inr (one_column ''iq=queued input'' 5 5 5 5 5 1, [LogWarnNotEnoughToAnalyze 1])
   \<and> (\<exists>st'. publish summarizer_listener (PercentComplete 100) (one_column ''iq=queued input'' 5 5 5 5 5 1) =
         ([], Inr (st', [LogWarnNotEnoughToAnalyze 1])))"
proof -
  have s: "samples (one_column ''iq=queued input'' 5 5 5 5 5 1) = 1"
    by (simp add: one_column_def)
  then have "samples (one_column ''iq=queued input'' 5 5 5 5 5 1) < 2
    \<or> \<not> dict_truthy (laststatus (one_column ''iq=queued input'' 5 5 5 5 5 1))
    \<or> \<not> dict_truthy (status_100pc (one_column ''iq=queued input'' 5 5 5 5 5 1))" by simp
  from not_enough_samples_skips_summary [OF this] s show ?thesis by simp
qed

end
